theory Spec2Isabelle
  imports Main
begin

section \<open>The ion-select component (core/src/components/select/select.tsx)\<close>

text \<open>
  The component is a class with mutable fields that reads and writes the
  \<open>ion-select-option\<close> elements below it and talks to three overlay controllers.
  The embedding is state passing over one record: the fields of the class, the option
  elements as a store from references to elements (the component and the document share
  the elements, and \<open>onSelect\<close> compares references), and a trace of what the component
  emitted, logged, created, presented and dismissed.

  Assignments to a property are field updates. Calling \<open>valueChanged\<close> and
  \<open>disabledChanged\<close> when a watched property changes is the work of the component
  framework, which is not part of the file; the two watchers are modelled as the functions
  the framework calls. The promises of the controllers (\<open>create\<close>, \<open>present\<close>) are taken in
  the case where they resolve, one method body running to its end before the next starts.
\<close>

subsection \<open>JavaScript values\<close>

text \<open>
  The select's \<open>value\<close> has type \<open>any\<close>. What the code asks of a value is whether it
  is an array, whether it is truthy, and whether it equals another value; the model keeps
  what these questions can tell apart. A number is an integer or NaN (the two zeros are
  equal and both falsy under every operator used here, and a fraction behaves like any
  other non-zero number); an object is its reference. The value of an option element is a
  primitive or an object reference; the select's value is one of these or an array of them.
\<close>

datatype atom =
    JUndefined
  | JNull
  | JBool bool
  | JNum int
  | JNaN
  | JStr string
  | JObj nat

datatype jsval = Atom atom | Arr "atom list"

definition isArray :: "jsval \<Rightarrow> bool" where
  "isArray v = (case v of Arr _ \<Rightarrow> True | Atom _ \<Rightarrow> False)"

text \<open>\<open>!!v\<close>: the falsy values are undefined, null, false, 0, NaN and the empty string.\<close>

fun truthy_atom :: "atom \<Rightarrow> bool" where
  "truthy_atom JUndefined = False"
| "truthy_atom JNull = False"
| "truthy_atom (JBool b) = b"
| "truthy_atom (JNum n) = (n \<noteq> 0)"
| "truthy_atom JNaN = False"
| "truthy_atom (JStr s) = (s \<noteq> [])"
| "truthy_atom (JObj r) = True"

fun truthy :: "jsval \<Rightarrow> bool" where
  "truthy (Atom a) = truthy_atom a"
| "truthy (Arr xs) = True"

text \<open>
  \<open>Array.prototype.includes\<close> compares with SameValueZero: NaN is found, objects are
  compared by reference.
\<close>

fun array_includes :: "atom list \<Rightarrow> atom \<Rightarrow> bool" where
  "array_includes [] a = False"
| "array_includes (x # xs) a = (x = a \<or> array_includes xs a)"

text \<open>
  \<open>a === v\<close> for a primitive or object reference \<open>a\<close>: NaN equals nothing, and an array
  is not identical to a value that is not an array.
\<close>

fun strict_eq :: "atom \<Rightarrow> jsval \<Rightarrow> bool" where
  "strict_eq a (Atom b) = (a = b \<and> a \<noteq> JNaN)"
| "strict_eq a (Arr xs) = False"

text \<open>\<open>v == null\<close> holds of null and undefined only.\<close>

definition loose_eq_null :: "jsval \<Rightarrow> bool" where
  "loose_eq_null v = (v = Atom JNull \<or> v = Atom JUndefined)"

text \<open>\<open>xs.join(sep)\<close> on an array of strings.\<close>

fun join :: "string list \<Rightarrow> string \<Rightarrow> string" where
  "join [] sep = []"
| "join [x] sep = x"
| "join (x # y # ys) sep = x @ sep @ join (y # ys) sep"

text \<open>\<open>s || ''\<close> for \<open>s\<close> of type \<open>string | null\<close>.\<close>

definition or_empty :: "string option \<Rightarrow> string" where
  "or_empty s = (case s of None \<Rightarrow> [] | Some t \<Rightarrow> (if t \<noteq> [] then t else []))"

text \<open>\<open>obj.key\<close> on a plain object: undefined when the key is absent.\<close>

definition get_prop :: "(string \<times> jsval) list \<Rightarrow> string \<Rightarrow> jsval" where
  "get_prop obj k = (case map_of obj k of None \<Rightarrow> Atom JUndefined | Some v \<Rightarrow> v)"

subsection \<open>Elements, overlays and events\<close>

text \<open>The fields of \<open>HTMLIonSelectOptionElement\<close> that the component uses.\<close>

record select_option =
  opt_value :: atom
  textContent :: "string option"
  selected :: bool
  opt_disabled :: bool

record ion_label =
  label_id :: string
  label_textContent :: "string option"

datatype ui_event = UIEvent nat

text \<open>
  The handlers passed to the overlays are closures over the component and one option
  element; each is named by what it closes over, and \<open>invoke\<close> below runs its body.
\<close>

datatype handler =
    PopoverOptionHandler nat
  | ActionSheetOptionHandler nat
  | CancelHandler
  | OkHandler

record select_popover_option =
  spo_text :: "string option"
  spo_value :: atom
  spo_checked :: bool
  spo_disabled :: bool
  spo_handler :: handler

record popover_props =
  pp_header :: jsval
  pp_subHeader :: jsval
  pp_message :: jsval
  pp_value :: jsval
  pp_options :: "select_popover_option list"

record popover_options =
  po_rest :: "(string \<times> jsval) list"
  po_component :: string
  po_cssClass :: "jsval list"
  po_event :: "ui_event option"
  po_componentProps :: popover_props

record action_sheet_button =
  asb_role :: string
  asb_text :: "string option"
  asb_handler :: handler

record action_sheet_options =
  aso_rest :: "(string \<times> jsval) list"
  aso_buttons :: "action_sheet_button list"
  aso_cssClass :: "jsval list"

record alert_input =
  ai_type :: string
  ai_label :: "string option"
  ai_value :: atom
  ai_checked :: bool
  ai_disabled :: bool

record alert_button =
  ab_text :: string
  ab_role :: "string option"
  ab_handler :: handler

record alert_options =
  alo_rest :: "(string \<times> jsval) list"
  alo_header :: jsval
  alo_inputs :: "alert_input list"
  alo_buttons :: "alert_button list"
  alo_cssClass :: "jsval list"

text \<open>\<open>OverlaySelect\<close>: what a controller's \<open>create\<close> resolves to, with the options it was given.\<close>

datatype overlay_select =
    Popover popover_options
  | ActionSheet action_sheet_options
  | Alert alert_options

datatype event =
    IonChange string jsval
  | IonCancel
  | IonFocus
  | IonBlur
  | IonStyle "(string \<times> bool) list"

datatype effect =
    Emit event
  | Warn string
  | Create overlay_select
  | Present overlay_select
  | Dismiss overlay_select

subsection \<open>The component\<close>

record Select =
  childOpts :: "nat list"
  overlay :: "overlay_select option"
  isExpanded :: bool
  keyFocus :: bool
  sel_text :: string
  disabled :: bool
  cancelText :: string
  okText :: string
  multiple :: bool
  interface :: string
  interfaceOptions :: "(string \<times> jsval) list"
  sel_value :: jsval
  heap :: "nat \<Rightarrow> select_option"
  descendants :: "nat list"
  label :: "ion_label option"
  trace :: "effect list"

text \<open>
  \<open>heap\<close> holds the option elements, \<open>descendants\<close> is what
  \<open>el.querySelectorAll('ion-select-option')\<close> returns (document order), \<open>label\<close> is what
  \<open>getLabel()\<close> returns, \<open>trace\<close> is the log of effects, oldest first.
\<close>

definition perform :: "effect \<Rightarrow> Select \<Rightarrow> Select" where
  "perform e s = s\<lparr>trace := trace s @ [e]\<rparr>"

definition hasValue :: "Select \<Rightarrow> bool" where
  "hasValue s =
     (case sel_value s of
        Arr xs \<Rightarrow> length xs > 0
      | Atom a \<Rightarrow> \<not> loose_eq_null (Atom a)
                 \<and> \<not> strict_eq JUndefined (Atom a)
                 \<and> \<not> strict_eq (JStr []) (Atom a))"

definition emitStyle :: "Select \<Rightarrow> Select" where
  "emitStyle s =
     perform (Emit (IonStyle
       [(''interactive'', True),
        (''select'', True),
        (''has-value'', hasValue s),
        (''interactive-disabled'', disabled s),
        (''select-disabled'', disabled s)])) s"

definition disabledChanged :: "Select \<Rightarrow> Select" where
  "disabledChanged s = emitStyle s"

text \<open>
  The \<open>forEach\<close> of \<open>valueChanged\<close>: the loop state is the store, \<open>texts\<close> and
  \<open>hasChecked\<close>.
\<close>

fun valueChanged_forEach ::
  "bool \<Rightarrow> atom list \<Rightarrow> nat list \<Rightarrow> (nat \<Rightarrow> select_option) \<times> string list \<times> bool
     \<Rightarrow> (nat \<Rightarrow> select_option) \<times> string list \<times> bool" where
  "valueChanged_forEach mult vals [] st = st"
| "valueChanged_forEach mult vals (r # rs) (h, texts, hasChecked) =
     (let selectOption = h r;
          sel = array_includes vals (opt_value selectOption)
      in if sel \<and> (mult \<or> \<not> hasChecked)
         then valueChanged_forEach mult vals rs
                (h(r := selectOption\<lparr>selected := True\<rparr>),
                 texts @ [or_empty (textContent selectOption)],
                 True)
         else valueChanged_forEach mult vals rs
                (h(r := selectOption\<lparr>selected := False\<rparr>), texts, hasChecked))"

definition values_of :: "jsval \<Rightarrow> atom list" where
  "values_of v = (case v of Arr xs \<Rightarrow> xs | Atom a \<Rightarrow> [a])"

definition valueChanged :: "Select \<Rightarrow> Select" where
  "valueChanged s =
     (let v = sel_value s;
          vals = values_of v;
          (h, texts, hasChecked) =
             valueChanged_forEach (multiple s) vals (childOpts s) (heap s, [], False);
          s1 = s\<lparr>heap := h, sel_text := join texts '', ''\<rparr>;
          s2 = perform (Emit (IonChange (sel_text s1) v)) s1
      in emitStyle s2)"

text \<open>
  \<open>optLoad\<close>: \<open>target\<close> is the reference of \<open>ev.target\<close>. The first test is
  \<open>(a && b) || c\<close>, as the operators bind.
\<close>

definition optLoad :: "nat \<Rightarrow> Select \<Rightarrow> Select" where
  "optLoad target s =
     (let s1 = s\<lparr>childOpts := descendants s\<rparr>;
          s2 = (if multiple s1
                then s1\<lparr>sel_value :=
                        Arr (map (\<lambda>r. opt_value (heap s1 r))
                               (filter (\<lambda>r. selected (heap s1 r)) (childOpts s1)))\<rparr>
                else s1);
          selectOption = heap s2 target;
          v = sel_value s2
      in if (\<not> loose_eq_null v \<and> (isArray v \<and> array_includes (values_of v) (opt_value selectOption)))
            \<or> strict_eq (opt_value selectOption) v
         then s2\<lparr>heap := (heap s2)(target := selectOption\<lparr>selected := True\<rparr>)\<rparr>
         else if isArray v \<and> multiple s2 \<and> selected selectOption
         then s2\<lparr>sel_value := Arr (values_of v @ [opt_value selectOption])\<rparr>
         else if strict_eq JUndefined v \<and> selected selectOption
         then s2\<lparr>sel_value := Atom (opt_value selectOption)\<rparr>
         else if selected selectOption
         then s2\<lparr>heap := (heap s2)(target := selectOption\<lparr>selected := False\<rparr>)\<rparr>
         else s2)"

text \<open>\<open>onSelect\<close>: the loop state is the select's value and the store.\<close>

fun onSelect_forEach ::
  "nat \<Rightarrow> nat list \<Rightarrow> jsval \<times> (nat \<Rightarrow> select_option) \<Rightarrow> jsval \<times> (nat \<Rightarrow> select_option)" where
  "onSelect_forEach target [] st = st"
| "onSelect_forEach target (r # rs) (v, h) =
     (if r = target
      then onSelect_forEach target rs (Atom (opt_value (h r)), h)
      else onSelect_forEach target rs (v, h(r := (h r)\<lparr>selected := False\<rparr>)))"

definition onSelect :: "nat \<Rightarrow> Select \<Rightarrow> Select" where
  "onSelect target s =
     (let (v, h) = onSelect_forEach target (childOpts s) (sel_value s, heap s)
      in s\<lparr>sel_value := v, heap := h\<rparr>)"

definition componentWillLoad :: "Select \<Rightarrow> Select" where
  "componentWillLoad s =
     (if \<not> truthy (sel_value s)
      then s\<lparr>sel_value := (if multiple s then Arr [] else Atom JUndefined)\<rparr>
      else s)"

subsection \<open>Opening and closing the overlay\<close>

text \<open>
  In the options objects, \<open>..._rest\<close> is the spread \<open>...interfaceOptions\<close>; a key
  written out after the spread replaces the key of the same name in it.
\<close>

definition openPopover :: "ui_event option \<Rightarrow> Select \<Rightarrow> Select \<times> overlay_select" where
  "openPopover ev s =
     (let io = interfaceOptions s;
          popoverOpts =
            \<lparr>po_rest = io,
             po_component = ''ion-select-popover'',
             po_cssClass = [Atom (JStr ''select-popover''), get_prop io ''cssClass''],
             po_event = ev,
             po_componentProps =
               \<lparr>pp_header = get_prop io ''header'',
                pp_subHeader = get_prop io ''subHeader'',
                pp_message = get_prop io ''message'',
                pp_value = sel_value s,
                pp_options =
                  map (\<lambda>r. \<lparr>spo_text = textContent (heap s r),
                             spo_value = opt_value (heap s r),
                             spo_checked = selected (heap s r),
                             spo_disabled = opt_disabled (heap s r),
                             spo_handler = PopoverOptionHandler r\<rparr>)
                      (childOpts s)\<rparr>\<rparr>;
          popover = Popover popoverOpts;
          s1 = (perform (Create popover) s)\<lparr>overlay := Some popover\<rparr>;
          s2 = perform (Present popover) s1
      in (s2\<lparr>isExpanded := True\<rparr>, popover))"

definition openActionSheet :: "Select \<Rightarrow> Select \<times> overlay_select" where
  "openActionSheet s =
     (let actionSheetButtons =
            map (\<lambda>r. \<lparr>asb_role = (if selected (heap s r) then ''selected'' else []),
                       asb_text = textContent (heap s r),
                       asb_handler = ActionSheetOptionHandler r\<rparr>)
                (childOpts s)
            @ [\<lparr>asb_role = ''cancel'',
                asb_text = Some (cancelText s),
                asb_handler = CancelHandler\<rparr>];
          io = interfaceOptions s;
          actionSheetOpts =
            \<lparr>aso_rest = io,
             aso_buttons = actionSheetButtons,
             aso_cssClass = [Atom (JStr ''select-action-sheet''), get_prop io ''cssClass'']\<rparr>;
          actionSheet = ActionSheet actionSheetOpts;
          s1 = (perform (Create actionSheet) s)\<lparr>overlay := Some actionSheet\<rparr>;
          s2 = perform (Present actionSheet) s1
      in (s2\<lparr>isExpanded := True\<rparr>, actionSheet))"

definition openAlert :: "Select \<Rightarrow> Select \<times> overlay_select" where
  "openAlert s =
     (let labelText = (case label s of None \<Rightarrow> None | Some l \<Rightarrow> label_textContent l);
          io = interfaceOptions s;
          inputType = (if multiple s then ''checkbox'' else ''radio'');
          alertOpts =
            \<lparr>alo_rest = io,
             alo_header =
               (if truthy (get_prop io ''header'') then get_prop io ''header''
                else (case labelText of None \<Rightarrow> Atom JNull | Some t \<Rightarrow> Atom (JStr t))),
             alo_inputs =
               map (\<lambda>r. \<lparr>ai_type = inputType,
                          ai_label = textContent (heap s r),
                          ai_value = opt_value (heap s r),
                          ai_checked = selected (heap s r),
                          ai_disabled = opt_disabled (heap s r)\<rparr>)
                   (childOpts s),
             alo_buttons =
               [\<lparr>ab_text = cancelText s, ab_role = Some ''cancel'', ab_handler = CancelHandler\<rparr>,
                \<lparr>ab_text = okText s, ab_role = None, ab_handler = OkHandler\<rparr>],
             alo_cssClass =
               [Atom (JStr ''select-alert''), get_prop io ''cssClass'',
                Atom (JStr (if multiple s then ''multiple-select-alert''
                            else ''single-select-alert''))]\<rparr>;
          alert = Alert alertOpts;
          s1 = (perform (Create alert) s)\<lparr>overlay := Some alert\<rparr>;
          s2 = perform (Present alert) s1
      in (s2\<lparr>isExpanded := True\<rparr>, alert))"

definition warn_multi :: "string \<Rightarrow> string" where
  \<open>warn_multi selectInterface =
     ''Select interface cannot be "'' @ selectInterface
       @ ''" with a multi-value select. Using the "alert" interface instead.''\<close>

definition warn_no_event :: string where
  \<open>warn_no_event =
     ''Select interface cannot be a "popover" without passing an event. Using the "alert" interface instead.''\<close>

text \<open>\<open>open(ev?)\<close>: \<open>ev\<close> is \<open>None\<close> when no event is passed.\<close>

definition open_select :: "ui_event option \<Rightarrow> Select \<Rightarrow> Select \<times> overlay_select" where
  "open_select ev s =
     (let selectInterface = interface s;
          (s1, selectInterface1) =
            (if (selectInterface = ''action-sheet'' \<or> selectInterface = ''popover'') \<and> multiple s
             then (perform (Warn (warn_multi selectInterface)) s, ''alert'')
             else (s, selectInterface));
          (s2, selectInterface2) =
            (if selectInterface1 = ''popover'' \<and> ev = None
             then (perform (Warn warn_no_event) s1, ''alert'')
             else (s1, selectInterface1))
      in if selectInterface2 = ''popover'' then openPopover ev s2
         else if selectInterface2 = ''action-sheet'' then openActionSheet s2
         else openAlert s2)"

text \<open>
  \<open>close\<close> returns the promise of \<open>overlay.dismiss()\<close>, which belongs to the overlay:
  \<open>dismiss\<close> gives what that promise resolves to.
\<close>

definition close :: "(overlay_select \<Rightarrow> bool) \<Rightarrow> Select \<Rightarrow> Select \<times> bool" where
  "close dismiss s =
     (case overlay s of
        None \<Rightarrow> (s, False)
      | Some ov \<Rightarrow>
          (perform (Dismiss ov) (s\<lparr>overlay := None, isExpanded := False\<rparr>), dismiss ov))"

text \<open>
  The bodies of the handlers; \<open>selectedValues\<close> is the argument the alert passes to its
  OK handler, the other handlers take none.
\<close>

fun invoke :: "(overlay_select \<Rightarrow> bool) \<Rightarrow> handler \<Rightarrow> jsval \<Rightarrow> Select \<Rightarrow> Select" where
  "invoke dismiss (PopoverOptionHandler r) selectedValues s =
     fst (close dismiss (s\<lparr>sel_value := Atom (opt_value (heap s r))\<rparr>))"
| "invoke dismiss (ActionSheetOptionHandler r) selectedValues s =
     s\<lparr>sel_value := Atom (opt_value (heap s r))\<rparr>"
| "invoke dismiss CancelHandler selectedValues s = perform (Emit IonCancel) s"
| "invoke dismiss OkHandler selectedValues s = s\<lparr>sel_value := selectedValues\<rparr>"

subsection \<open>Reading the trace\<close>

fun is_ionChange :: "effect \<Rightarrow> bool" where
  "is_ionChange (Emit (IonChange t v)) = True"
| "is_ionChange e = False"

fun is_ionStyle :: "effect \<Rightarrow> bool" where
  "is_ionStyle (Emit (IonStyle p)) = True"
| "is_ionStyle e = False"

fun is_create :: "effect \<Rightarrow> bool" where
  "is_create (Create ov) = True"
| "is_create e = False"

fun is_warn :: "effect \<Rightarrow> bool" where
  "is_warn (Warn m) = True"
| "is_warn e = False"

fun is_present :: "effect \<Rightarrow> bool" where
  "is_present (Present ov) = True"
| "is_present e = False"

fun is_dismiss :: "effect \<Rightarrow> bool" where
  "is_dismiss (Dismiss ov) = True"
| "is_dismiss e = False"

text \<open>The handlers an overlay was given, in the order of its options or buttons.\<close>

fun handlers_of :: "overlay_select \<Rightarrow> handler list" where
  "handlers_of (Popover opts) = map spo_handler (pp_options (po_componentProps opts))"
| "handlers_of (ActionSheet opts) = map asb_handler (aso_buttons opts)"
| "handlers_of (Alert opts) = map ab_handler (alo_buttons opts)"

text \<open>
  The values of the descendants whose \<open>selected\<close> flag is set, in document order: what
  the option elements declare as selected.
\<close>

definition selected_values :: "Select \<Rightarrow> atom list" where
  "selected_values s =
     map (\<lambda>r. opt_value (heap s r)) (filter (\<lambda>r. selected (heap s r)) (descendants s))"

text \<open>The effects of a step from \<open>s\<close> to \<open>s'\<close>: what \<open>s'\<close> logged after \<open>s\<close>.\<close>

definition new_effects :: "Select \<Rightarrow> Select \<Rightarrow> effect list" where
  "new_effects s s' = drop (length (trace s)) (trace s')"

text \<open>The interface an overlay presents, by the name the \<open>interface\<close> property uses.\<close>

fun kind_of :: "overlay_select \<Rightarrow> string" where
  "kind_of (Popover opts) = ''popover''"
| "kind_of (ActionSheet opts) = ''action-sheet''"
| "kind_of (Alert opts) = ''alert''"

text \<open>
  An opening step from \<open>s\<close> with result \<open>p\<close> (the new state and the overlay returned):
  the overlay was created, then presented, is the stored overlay, and the select is
  expanded.
\<close>

definition opened :: "Select \<Rightarrow> Select \<times> overlay_select \<Rightarrow> bool" where
  "opened s p =
     (new_effects s (fst p) = [Create (snd p), Present (snd p)]
      \<and> overlay (fst p) = Some (snd p)
      \<and> isExpanded (fst p))"

subsection \<open>Sample states\<close>

definition apple :: select_option where
  "apple = \<lparr>opt_value = JStr ''a'', textContent = Some ''Apple'',
            selected = False, opt_disabled = False\<rparr>"

definition banana :: select_option where
  "banana = \<lparr>opt_value = JStr ''b'', textContent = Some ''Banana'',
             selected = True, opt_disabled = False\<rparr>"

definition avocado :: select_option where
  "avocado = \<lparr>opt_value = JStr ''a'', textContent = Some ''Avocado'',
              selected = True, opt_disabled = False\<rparr>"

definition fruit_heap :: "nat \<Rightarrow> select_option" where
  "fruit_heap r = (if r = 0 then apple else if r = 1 then banana else avocado)"

text \<open>A single-value select with three options, two of them with the value \<open>'a'\<close>.\<close>

definition fruit_select :: Select where
  "fruit_select =
     \<lparr>childOpts = [0, 1, 2], overlay = None, isExpanded = False, keyFocus = False,
      sel_text = [], disabled = False, cancelText = ''Cancel'', okText = ''OK'',
      multiple = False, interface = ''alert'', interfaceOptions = [],
      sel_value = Atom (JStr ''a''), heap = fruit_heap, descendants = [0, 1, 2],
      label = None, trace = []\<rparr>"

text \<open>
  A multi-value select whose document holds the first two options only; the third element
  (reference 2, selected) has been removed from the document.
\<close>

definition unload_select :: Select where
  "unload_select = fruit_select\<lparr>multiple := True, sel_value := Arr [JStr ''b''],
     childOpts := [0, 1, 2], descendants := [0, 1]\<rparr>"

text \<open>A single-value select that uses the action sheet.\<close>

definition sheet_select :: Select where
  "sheet_select = fruit_select\<lparr>interface := ''action-sheet''\<rparr>"

text \<open>Two overlays' \<open>dismiss\<close>: one resolves to true, one to false.\<close>

definition dismiss_true :: "overlay_select \<Rightarrow> bool" where
  "dismiss_true ov = True"

definition dismiss_false :: "overlay_select \<Rightarrow> bool" where
  "dismiss_false ov = False"

section \<open>Properties\<close>

lemmas fruit_defs = fruit_select_def fruit_heap_def apple_def banana_def avocado_def

lemmas run_defs = valueChanged_def values_of_def Let_def emitStyle_def perform_def
  hasValue_def or_empty_def loose_eq_null_def new_effects_def disabledChanged_def

subsection \<open>The scan of \<open>valueChanged\<close>\<close>

text \<open>The scan writes only the \<open>selected\<close> flag, and only of the elements it visits.\<close>

lemma forEach_frame:
  "r \<notin> set rs \<Longrightarrow> fst (valueChanged_forEach m vs rs (h, t, c)) r = h r"
  by (induction rs arbitrary: h t c) (auto simp: Let_def)

lemma forEach_opt_value:
  "opt_value (fst (valueChanged_forEach m vs rs (h, t, c)) r) = opt_value (h r)"
  by (induction rs arbitrary: h t c) (auto simp: Let_def)

lemma forEach_textContent:
  "textContent (fst (valueChanged_forEach m vs rs (h, t, c)) r) = textContent (h r)"
  by (induction rs arbitrary: h t c) (auto simp: Let_def)

lemma forEach_opt_disabled:
  "opt_disabled (fst (valueChanged_forEach m vs rs (h, t, c)) r) = opt_disabled (h r)"
  by (induction rs arbitrary: h t c) (auto simp: Let_def)

text \<open>
  The flag an element is left with, when no element is visited twice: it matches, and
  either the select is multiple or nothing was checked before the scan and no earlier
  element matches.
\<close>

lemma forEach_selected:
  "distinct rs \<Longrightarrow> i < length rs \<Longrightarrow>
   selected (fst (valueChanged_forEach m vs rs (h, t, c)) (rs ! i)) =
     (array_includes vs (opt_value (h (rs ! i)))
      \<and> (m \<or> (\<not> c \<and> (\<forall>j<i. \<not> array_includes vs (opt_value (h (rs ! j)))))))"
proof (induction rs arbitrary: h t c i)
  case Nil
  then show ?case by simp
next
  case (Cons r rs)
  show ?case
  proof (cases i)
    case 0
    with Cons.prems show ?thesis
      by (simp add: Let_def forEach_frame)
  next
    case (Suc k)
    with Cons.prems have k: "k < length rs" and d: "distinct rs" and nr: "r \<notin> set rs"
      by auto
    have ne: "\<And>j. j < length rs \<Longrightarrow> rs ! j \<noteq> r"
      using nr by (metis nth_mem)
    show ?thesis
      using Cons.IH[OF d k] Suc k ne
      by (auto simp: Let_def All_less_Suc2)
  qed
qed

lemma forEach_texts:
  "distinct rs \<Longrightarrow>
   fst (snd (valueChanged_forEach m vs rs (h, t, c))) =
     t @ map (\<lambda>r. or_empty (textContent (h r)))
           (filter (\<lambda>r. selected (fst (valueChanged_forEach m vs rs (h, t, c)) r)) rs)"
proof (induction rs arbitrary: h t c)
  case Nil
  then show ?case by simp
next
  case (Cons r rs)
  then have d: "distinct rs" and nr: "r \<notin> set rs" by auto
  have same: "\<And>g x. map (\<lambda>q. or_empty (textContent ((h(r := g)) q))) (filter x rs)
                 = map (\<lambda>q. or_empty (textContent (h q))) (filter x rs)"
    using nr by (auto intro!: map_cong)
  show ?case
    using Cons.IH[OF d] nr
    by (simp add: Let_def forEach_frame same fun_upd_same del: fun_upd_apply)
qed

lemma forEach_single:
  "\<not> m \<Longrightarrow> distinct rs \<Longrightarrow>
   length (filter (\<lambda>r. selected (fst (valueChanged_forEach m vs rs (h, t, c)) r)) rs)
     \<le> (if c then 0 else 1)"
proof (induction rs arbitrary: h t c)
  case Nil
  then show ?case by simp
next
  case (Cons r rs)
  then have d: "distinct rs" and nr: "r \<notin> set rs" by auto
  show ?case
    using Cons.IH[OF Cons.prems(1) d, of "h(r := h r\<lparr>selected := True\<rparr>)" _ True]
          Cons.IH[OF Cons.prems(1) d, of "h(r := h r\<lparr>selected := False\<rparr>)" t c] nr Cons.prems(1)
    by (auto simp: Let_def forEach_frame fun_upd_same simp del: fun_upd_apply split: if_splits)
qed

lemma array_includes_set: "array_includes xs a = (a \<in> set xs)"
  by (induction xs) auto

subsection \<open>Value and option reconciliation\<close>

text \<open>
  C1. \<open>valueChanged\<close> scans the child options once. An option is left selected exactly
  when its value is contained in the select's value (a value that is not an array counting
  as the list of that one value) and, when \<open>multiple\<close> is false, no option before it in
  the list matches; every other child option is left unselected. The component's text
  is the \<open>textContent\<close> of the options left selected, joined by \<open>', '\<close>. The child
  options are the elements of one \<open>querySelectorAll\<close> result, so no element is listed
  twice.
\<close>

theorem valueChanged_reconciles:
  assumes "distinct (childOpts s)"
  shows "childOpts (valueChanged s) = childOpts s \<and>
     (\<forall>i<length (childOpts s).
        selected (heap (valueChanged s) (childOpts s ! i)) =
          (opt_value (heap s (childOpts s ! i))
             \<in> set (case sel_value s of Arr xs \<Rightarrow> xs | Atom a \<Rightarrow> [a])
           \<and> (multiple s \<or>
               (\<forall>j<i. opt_value (heap s (childOpts s ! j))
                  \<notin> set (case sel_value s of Arr xs \<Rightarrow> xs | Atom a \<Rightarrow> [a]))))) \<and>
     sel_text (valueChanged s) =
       join (map (\<lambda>r. or_empty (textContent (heap (valueChanged s) r)))
               (filter (\<lambda>r. selected (heap (valueChanged s) r)) (childOpts s))) '', ''"
proof -
  obtain h t c where F: "valueChanged_forEach (multiple s) (values_of (sel_value s))
      (childOpts s) (heap s, [], False) = (h, t, c)"
    by (cases "valueChanged_forEach (multiple s) (values_of (sel_value s))
      (childOpts s) (heap s, [], False)") auto
  have hp: "heap (valueChanged s) = h" and tx: "sel_text (valueChanged s) = join t '', ''"
    and co: "childOpts (valueChanged s) = childOpts s"
    by (simp_all add: valueChanged_def Let_def F emitStyle_def perform_def)
  have sel: "\<And>i. i < length (childOpts s) \<Longrightarrow> selected (h (childOpts s ! i)) =
     (array_includes (values_of (sel_value s)) (opt_value (heap s (childOpts s ! i)))
      \<and> (multiple s \<or> (\<forall>j<i. \<not> array_includes (values_of (sel_value s))
                                  (opt_value (heap s (childOpts s ! j))))))"
    using forEach_selected[OF assms, of _ "multiple s" "values_of (sel_value s)" "heap s" "[]" False]
    by (simp add: F)
  have texts_eq: "t = map (\<lambda>r. or_empty (textContent (heap s r)))
                        (filter (\<lambda>r. selected (h r)) (childOpts s))"
    using forEach_texts[OF assms, of "multiple s" "values_of (sel_value s)" "heap s" "[]" False]
    by (simp add: F)
  have tc: "\<And>r. textContent (h r) = textContent (heap s r)"
    using forEach_textContent[of "multiple s" "values_of (sel_value s)" "childOpts s" "heap s" "[]" False]
    by (simp add: F)
  show ?thesis
    using sel texts_eq
    by (simp add: hp tx co tc array_includes_set values_of_def)
qed

theorem valueChanged_reconciles_witness:
  "distinct (childOpts fruit_select) \<and>
   map (\<lambda>r. selected (heap (valueChanged fruit_select) r)) (childOpts fruit_select)
     = [True, False, False] \<and>
   sel_text (valueChanged fruit_select) = ''Apple''"
proof -
  have d: "distinct (childOpts fruit_select)"
    by (simp add: fruit_select_def)
  from valueChanged_reconciles[OF d] d show ?thesis
    by (simp add: fruit_defs run_defs)
qed

text \<open>
  C8. When \<open>multiple\<close> is false, \<open>valueChanged\<close> leaves at most one child option
  selected, also when several child options carry a value the select's value contains:
  the option left selected is the first one in the list that matches.
\<close>

theorem valueChanged_single_selection:
  assumes "\<not> multiple s" and "distinct (childOpts s)"
  shows "length (filter (\<lambda>r. selected (heap (valueChanged s) r)) (childOpts s)) \<le> 1 \<and>
     (\<forall>i<length (childOpts s).
        selected (heap (valueChanged s) (childOpts s ! i)) =
          (opt_value (heap s (childOpts s ! i)) \<in> set (values_of (sel_value s))
           \<and> (\<forall>j<i. opt_value (heap s (childOpts s ! j)) \<notin> set (values_of (sel_value s)))))"
proof -
  obtain h t c where F: "valueChanged_forEach (multiple s) (values_of (sel_value s))
      (childOpts s) (heap s, [], False) = (h, t, c)"
    by (cases "valueChanged_forEach (multiple s) (values_of (sel_value s))
      (childOpts s) (heap s, [], False)") auto
  have hp: "heap (valueChanged s) = h"
    by (simp add: valueChanged_def Let_def F emitStyle_def perform_def)
  have one: "length (filter (\<lambda>r. selected (h r)) (childOpts s)) \<le> 1"
    using forEach_single[OF assms, of "values_of (sel_value s)" "heap s" "[]" False]
    by (simp add: F)
  have sel: "\<And>i. i < length (childOpts s) \<Longrightarrow> selected (h (childOpts s ! i)) =
     (array_includes (values_of (sel_value s)) (opt_value (heap s (childOpts s ! i)))
      \<and> (\<forall>j<i. \<not> array_includes (values_of (sel_value s))
                     (opt_value (heap s (childOpts s ! j)))))"
    using forEach_selected[OF assms(2), of _ "multiple s" "values_of (sel_value s)" "heap s" "[]" False]
      assms(1) F
    by simp
  show ?thesis
    using one sel by (simp add: hp array_includes_set)
qed

theorem valueChanged_single_selection_witness:
  "\<not> multiple fruit_select \<and> distinct (childOpts fruit_select) \<and>
   filter (\<lambda>r. opt_value (heap fruit_select r) \<in> set (values_of (sel_value fruit_select)))
     (childOpts fruit_select) = [0, 2] \<and>
   filter (\<lambda>r. selected (heap (valueChanged fruit_select) r)) (childOpts fruit_select) = [0]"
proof -
  have m: "\<not> multiple fruit_select" and d: "distinct (childOpts fruit_select)"
    by (simp_all add: fruit_select_def)
  from valueChanged_single_selection[OF m d] m d show ?thesis
    by (simp add: fruit_defs run_defs)
qed

subsection \<open>What \<open>valueChanged\<close> leaves alone and what it emits\<close>

lemma valueChanged_unchanged:
  "childOpts (valueChanged s) = childOpts s"
  "sel_value (valueChanged s) = sel_value s"
  "disabled (valueChanged s) = disabled s"
  "multiple (valueChanged s) = multiple s"
  by (simp_all add: valueChanged_def Let_def emitStyle_def perform_def
        split: prod.splits)

lemma valueChanged_hasValue: "hasValue (valueChanged s) = hasValue s"
  by (simp add: hasValue_def valueChanged_unchanged)

lemma valueChanged_trace:
  "trace (valueChanged s) =
     trace s @ [Emit (IonChange (sel_text (valueChanged s)) (sel_value s)),
                Emit (IonStyle
                  [(''interactive'', True),
                   (''select'', True),
                   (''has-value'', hasValue s),
                   (''interactive-disabled'', disabled s),
                   (''select-disabled'', disabled s)])]"
  by (simp add: valueChanged_def Let_def emitStyle_def perform_def hasValue_def
        split: prod.splits)

lemma valueChanged_text:
  assumes "distinct (childOpts s)"
  shows "sel_text (valueChanged s) =
       join (map (\<lambda>r. or_empty (textContent (heap (valueChanged s) r)))
               (filter (\<lambda>r. selected (heap (valueChanged s) r)) (childOpts s))) '', ''"
proof -
  obtain h t c where F: "valueChanged_forEach (multiple s) (values_of (sel_value s))
      (childOpts s) (heap s, [], False) = (h, t, c)"
    by (cases "valueChanged_forEach (multiple s) (values_of (sel_value s))
      (childOpts s) (heap s, [], False)") auto
  have hp: "heap (valueChanged s) = h" and tx: "sel_text (valueChanged s) = join t '', ''"
    by (simp_all add: valueChanged_def Let_def F emitStyle_def perform_def)
  have texts_eq: "t = map (\<lambda>r. or_empty (textContent (heap s r)))
                        (filter (\<lambda>r. selected (h r)) (childOpts s))"
    using forEach_texts[OF assms, of "multiple s" "values_of (sel_value s)" "heap s" "[]" False]
    by (simp add: F)
  have tc: "\<And>r. textContent (h r) = textContent (heap s r)"
    using forEach_textContent[of "multiple s" "values_of (sel_value s)" "childOpts s" "heap s" "[]" False]
    by (simp add: F)
  show ?thesis
    using texts_eq by (simp add: hp tx tc)
qed

text \<open>
  C3. Handling a change of the value emits exactly one \<open>ionChange\<close> event. Its payload
  is the select's value, which the handler leaves as it found it, and the display text:
  the \<open>textContent\<close> of the options selected when the event is emitted, joined by
  \<open>', '\<close>. What was logged before stays.
\<close>

theorem valueChanged_emits_ionChange:
  assumes "distinct (childOpts s)"
  shows "filter is_ionChange (new_effects s (valueChanged s)) =
      [Emit (IonChange
         (join (map (\<lambda>r. or_empty (textContent (heap (valueChanged s) r)))
                  (filter (\<lambda>r. selected (heap (valueChanged s) r))
                     (childOpts (valueChanged s)))) '', '')
         (sel_value (valueChanged s)))]
    \<and> sel_value (valueChanged s) = sel_value s
    \<and> take (length (trace s)) (trace (valueChanged s)) = trace s"
  using valueChanged_text[OF assms]
  by (simp add: new_effects_def valueChanged_trace valueChanged_unchanged)

theorem valueChanged_emits_ionChange_witness:
  "distinct (childOpts fruit_select) \<and>
   filter is_ionChange (new_effects fruit_select (valueChanged fruit_select)) =
     [Emit (IonChange ''Apple'' (Atom (JStr ''a'')))]"
proof -
  have d: "distinct (childOpts fruit_select)"
    by (simp add: fruit_select_def)
  from valueChanged_emits_ionChange[OF d] d show ?thesis
    by (simp add: fruit_defs run_defs)
qed

text \<open>
  C7. The handler of a change of \<open>disabled\<close> and the handler of a change of the value
  each emit one \<open>ionStyle\<close> event. In its payload \<open>interactive\<close> and \<open>select\<close> are
  true, \<open>has-value\<close> is the result of \<open>hasValue()\<close>, and \<open>interactive-disabled\<close> and
  \<open>select-disabled\<close> are the \<open>disabled\<close> flag, all read in the state the handler runs
  in (neither handler changes the value or the flag).
\<close>

theorem style_notification:
  "new_effects s (disabledChanged s) =
     [Emit (IonStyle
        [(''interactive'', True),
         (''select'', True),
         (''has-value'', hasValue s),
         (''interactive-disabled'', disabled s),
         (''select-disabled'', disabled s)])]
   \<and> filter is_ionStyle (new_effects s (valueChanged s)) =
     [Emit (IonStyle
        [(''interactive'', True),
         (''select'', True),
         (''has-value'', hasValue (valueChanged s)),
         (''interactive-disabled'', disabled (valueChanged s)),
         (''select-disabled'', disabled (valueChanged s))])]
   \<and> hasValue (disabledChanged s) = hasValue s
   \<and> disabled (disabledChanged s) = disabled s"
  by (simp add: new_effects_def valueChanged_trace valueChanged_unchanged
        valueChanged_hasValue disabledChanged_def emitStyle_def perform_def hasValue_def)

subsection \<open>Presence of a value\<close>

text \<open>
  C9. \<open>hasValue()\<close> is true exactly when the value is an array with at least one
  element, or is not an array and is neither null, nor undefined, nor the empty string.
  The number 0 and the boolean false are values that are present.
\<close>

theorem hasValue_iff:
  "hasValue s =
     (case sel_value s of
        Arr xs \<Rightarrow> 0 < length xs
      | Atom a \<Rightarrow> a \<noteq> JNull \<and> a \<noteq> JUndefined \<and> a \<noteq> JStr [])
   \<and> hasValue (s\<lparr>sel_value := Atom (JNum 0)\<rparr>)
   \<and> hasValue (s\<lparr>sel_value := Atom (JBool False)\<rparr>)"
  by (auto simp: hasValue_def loose_eq_null_def split: jsval.splits)

theorem hasValue_iff_witness:
  "hasValue fruit_select
   \<and> \<not> hasValue (fruit_select\<lparr>sel_value := Arr []\<rparr>)
   \<and> \<not> hasValue (fruit_select\<lparr>sel_value := Atom (JStr [])\<rparr>)
   \<and> \<not> hasValue (fruit_select\<lparr>sel_value := Atom JNull\<rparr>)
   \<and> hasValue (fruit_select\<lparr>sel_value := Atom (JNum 0)\<rparr>)"
  using hasValue_iff[of fruit_select]
        hasValue_iff[of "fruit_select\<lparr>sel_value := Arr []\<rparr>"]
        hasValue_iff[of "fruit_select\<lparr>sel_value := Atom (JStr [])\<rparr>"]
        hasValue_iff[of "fruit_select\<lparr>sel_value := Atom JNull\<rparr>"]
  by (simp add: fruit_select_def)

subsection \<open>The initial value\<close>

lemma falsy_iff:
  "(\<not> truthy v) =
     (v \<in> {Atom JUndefined, Atom JNull, Atom (JBool False), Atom (JNum 0), Atom JNaN,
           Atom (JStr [])})"
proof (cases v)
  case (Atom a)
  then show ?thesis by (cases a) auto
next
  case (Arr xs)
  then show ?thesis by simp
qed

text \<open>
  C10. \<open>componentWillLoad\<close> replaces every falsy initial value (undefined, null, false, 0,
  NaN, the empty string) by the empty array when \<open>multiple\<close> is true and by undefined
  otherwise, and changes nothing else; with any other initial value it changes nothing.
\<close>

theorem componentWillLoad_normalizes:
  "(sel_value s \<in> {Atom JUndefined, Atom JNull, Atom (JBool False), Atom (JNum 0), Atom JNaN,
                    Atom (JStr [])}
      \<longrightarrow> componentWillLoad s =
            s\<lparr>sel_value := (if multiple s then Arr [] else Atom JUndefined)\<rparr>)
   \<and> (sel_value s \<notin> {Atom JUndefined, Atom JNull, Atom (JBool False), Atom (JNum 0), Atom JNaN,
                    Atom (JStr [])}
      \<longrightarrow> componentWillLoad s = s)"
  using falsy_iff[of "sel_value s"] by (simp add: componentWillLoad_def)

theorem componentWillLoad_normalizes_witness:
  "sel_value (componentWillLoad (fruit_select\<lparr>sel_value := Atom (JNum 0)\<rparr>)) = Atom JUndefined
   \<and> sel_value (componentWillLoad (fruit_select\<lparr>sel_value := Atom (JStr []), multiple := True\<rparr>))
       = Arr []
   \<and> sel_value (componentWillLoad (fruit_select\<lparr>sel_value := Atom (JBool False)\<rparr>))
       = Atom JUndefined
   \<and> componentWillLoad fruit_select = fruit_select"
  using componentWillLoad_normalizes[of "fruit_select\<lparr>sel_value := Atom (JNum 0)\<rparr>"]
        componentWillLoad_normalizes[of "fruit_select\<lparr>sel_value := Atom (JStr []), multiple := True\<rparr>"]
        componentWillLoad_normalizes[of "fruit_select\<lparr>sel_value := Atom (JBool False)\<rparr>"]
        componentWillLoad_normalizes[of fruit_select]
  by (simp add: fruit_select_def)

subsection \<open>The user's choice\<close>

lemma onSelect_forEach_eq:
  "onSelect_forEach tg rs (v, h) =
     ((if tg \<in> set rs then Atom (opt_value (h tg)) else v),
      (\<lambda>r. if r \<in> set rs \<and> r \<noteq> tg then (h r)\<lparr>selected := False\<rparr> else h r))"
  by (induction rs arbitrary: v h) (auto simp: fun_eq_iff)

text \<open>
  C5. When the \<open>ionSelect\<close> event comes from one of the child options, \<open>onSelect\<close> sets
  the select's value to the value of that option and leaves every other child option
  unselected; the option itself is not touched.
\<close>

theorem onSelect_reconciles:
  assumes "target \<in> set (childOpts s)"
  shows "sel_value (onSelect target s) = Atom (opt_value (heap s target))
     \<and> (\<forall>r \<in> set (childOpts s). r \<noteq> target \<longrightarrow> \<not> selected (heap (onSelect target s) r))
     \<and> heap (onSelect target s) target = heap s target"
  using assms by (simp add: onSelect_def onSelect_forEach_eq)

theorem onSelect_reconciles_witness:
  "1 \<in> set (childOpts fruit_select)
   \<and> sel_value (onSelect 1 fruit_select) = Atom (JStr ''b'')
   \<and> map (\<lambda>r. selected (heap (onSelect 1 fruit_select) r)) (childOpts fruit_select)
       = [False, True, False]"
proof -
  have m: "1 \<in> set (childOpts fruit_select)"
    by (simp add: fruit_select_def)
  from onSelect_reconciles[OF m] m show ?thesis
    by (simp add: fruit_defs onSelect_def)
qed

subsection \<open>Option projection\<close>

text \<open>
  The option list is always one \<open>querySelectorAll\<close> result: \<open>optLoad\<close> is the only place
  that assigns it.
\<close>

lemma optLoad_childOpts: "childOpts (optLoad target s) = descendants s"
  by (simp add: optLoad_def Let_def)

lemma optLoad_distinct: "distinct (descendants s) \<Longrightarrow> distinct (childOpts (optLoad target s))"
  by (simp add: optLoad_childOpts)

text \<open>
  C6, as stated, says that with \<open>multiple\<close> true the value after the event is the list
  of the values of the selected options. It is not when the event comes from a selected
  option that is no longer among the descendants (an unload): the branch "if the value is
  an array we need to push the option on" appends the value of that option.
\<close>

theorem optLoad_value_counterexample:
  "multiple unload_select
   \<and> childOpts (optLoad 2 unload_select) = descendants unload_select
   \<and> selected_values unload_select = [JStr ''b'']
   \<and> selected_values (optLoad 2 unload_select) = [JStr ''b'']
   \<and> sel_value (optLoad 2 unload_select) = Arr [JStr ''b'', JStr ''a'']"
  by (simp add: unload_select_def fruit_defs optLoad_def selected_values_def Let_def
        loose_eq_null_def isArray_def values_of_def)

text \<open>
  C6, amended. On every \<open>ionSelectOptionDidLoad\<close> or \<open>ionSelectOptionDidUnload\<close> event
  the component rebuilds its option list from the \<open>ion-select-option\<close> descendants. When
  \<open>multiple\<close> is true it recomputes its value as the list of the values of the descendants
  whose \<open>selected\<close> flag is set when the event arrives, and appends the value of the
  event's option when that option is selected and its value is not in that list. When the
  event's option is one of the descendants nothing is appended.
\<close>

theorem optLoad_projects:
  "childOpts (optLoad target s) = descendants s
   \<and> (multiple s \<longrightarrow>
        sel_value (optLoad target s) =
          Arr (selected_values s
               @ (if selected (heap s target) \<and> opt_value (heap s target) \<notin> set (selected_values s)
                  then [opt_value (heap s target)] else [])))
   \<and> (multiple s \<and> target \<in> set (descendants s) \<longrightarrow>
        sel_value (optLoad target s) = Arr (selected_values s))"
  by (auto simp: optLoad_def selected_values_def Let_def loose_eq_null_def isArray_def
        values_of_def array_includes_set)

theorem optLoad_projects_witness:
  "multiple unload_select
   \<and> sel_value (optLoad 2 unload_select) = Arr [JStr ''b'', JStr ''a'']
   \<and> 1 \<in> set (descendants unload_select)
   \<and> sel_value (optLoad 1 unload_select) = Arr [JStr ''b'']"
  using optLoad_projects[of 2 unload_select] optLoad_projects[of 1 unload_select]
  by (simp add: unload_select_def fruit_defs selected_values_def)

subsection \<open>Choosing the interface\<close>

lemma opened_openPopover: "opened s (openPopover ev s)"
  by (simp add: opened_def openPopover_def Let_def new_effects_def perform_def)

lemma opened_openActionSheet: "opened s (openActionSheet s)"
  by (simp add: opened_def openActionSheet_def Let_def new_effects_def perform_def)

lemma opened_openAlert: "opened s (openAlert s)"
  by (simp add: opened_def openAlert_def Let_def new_effects_def perform_def)

lemma kind_of_openers:
  "kind_of (snd (openPopover ev s)) = ''popover''"
  "kind_of (snd (openActionSheet s)) = ''action-sheet''"
  "kind_of (snd (openAlert s)) = ''alert''"
  by (simp_all add: openPopover_def openActionSheet_def openAlert_def Let_def)

lemma opener_trace:
  "trace (fst (openPopover ev s)) =
     trace s @ [Create (snd (openPopover ev s)), Present (snd (openPopover ev s))]"
  "trace (fst (openActionSheet s)) =
     trace s @ [Create (snd (openActionSheet s)), Present (snd (openActionSheet s))]"
  "trace (fst (openAlert s)) =
     trace s @ [Create (snd (openAlert s)), Present (snd (openAlert s))]"
  by (simp_all add: openPopover_def openActionSheet_def openAlert_def Let_def perform_def)

lemma opener_overlay:
  "overlay (fst (openPopover ev s)) = Some (snd (openPopover ev s))"
  "overlay (fst (openActionSheet s)) = Some (snd (openActionSheet s))"
  "overlay (fst (openAlert s)) = Some (snd (openAlert s))"
  by (simp_all add: openPopover_def openActionSheet_def openAlert_def Let_def perform_def)

text \<open>
  C2. Every call of \<open>open\<close> creates, presents, stores and returns exactly one overlay:
  a popover when the interface is \<open>'popover'\<close>, an event was passed and \<open>multiple\<close> is
  false; an action sheet when the interface is \<open>'action-sheet'\<close> and \<open>multiple\<close> is
  false; an alert in every other case. A warning is logged exactly in the cases where
  the configured interface is \<open>'action-sheet'\<close> or \<open>'popover'\<close> and the alert is used in
  its place: a multi-value select, or a popover without an event.
\<close>

theorem open_presentation_strategy:
  "kind_of (snd (open_select ev s)) =
     (if interface s = ''popover'' \<and> ev \<noteq> None \<and> \<not> multiple s then ''popover''
      else if interface s = ''action-sheet'' \<and> \<not> multiple s then ''action-sheet''
      else ''alert'')
   \<and> filter is_create (new_effects s (fst (open_select ev s)))
       = [Create (snd (open_select ev s))]
   \<and> filter is_present (new_effects s (fst (open_select ev s)))
       = [Present (snd (open_select ev s))]
   \<and> overlay (fst (open_select ev s)) = Some (snd (open_select ev s))
   \<and> filter is_warn (new_effects s (fst (open_select ev s))) =
       (if (interface s = ''action-sheet'' \<or> interface s = ''popover'') \<and> multiple s
        then [Warn (warn_multi (interface s))]
        else if interface s = ''popover'' \<and> ev = None then [Warn warn_no_event]
        else [])"
  by (simp add: open_select_def Let_def kind_of_openers opener_trace opener_overlay
        new_effects_def perform_def)

theorem open_presentation_strategy_witness:
  "kind_of (snd (open_select None (fruit_select\<lparr>interface := ''popover''\<rparr>))) = ''alert''
   \<and> filter is_warn (new_effects (fruit_select\<lparr>interface := ''popover''\<rparr>)
         (fst (open_select None (fruit_select\<lparr>interface := ''popover''\<rparr>))))
       = [Warn warn_no_event]
   \<and> kind_of (snd (open_select (Some (UIEvent 0)) (fruit_select\<lparr>interface := ''popover''\<rparr>)))
       = ''popover''
   \<and> kind_of (snd (open_select None sheet_select)) = ''action-sheet''
   \<and> kind_of (snd (open_select None (sheet_select\<lparr>multiple := True\<rparr>))) = ''alert''"
  using open_presentation_strategy[of None "fruit_select\<lparr>interface := ''popover''\<rparr>"]
        open_presentation_strategy[of "Some (UIEvent 0)" "fruit_select\<lparr>interface := ''popover''\<rparr>"]
        open_presentation_strategy[of None sheet_select]
        open_presentation_strategy[of None "sheet_select\<lparr>multiple := True\<rparr>"]
  by (simp add: fruit_select_def sheet_select_def)

subsection \<open>The life of an overlay\<close>

lemma close_some:
  "overlay s = Some ov \<Longrightarrow>
   close dismiss s = (perform (Dismiss ov) (s\<lparr>overlay := None, isExpanded := False\<rparr>), dismiss ov)"
  by (simp add: close_def)

lemma close_none: "overlay s = None \<Longrightarrow> close dismiss s = (s, False)"
  by (simp add: close_def)

text \<open>
  C4, as stated, says that after a choice is made or cancelled the overlay is dismissed
  through \<open>close\<close>, which clears the stored overlay, resets \<open>isExpanded\<close> and resolves to
  true. The handlers given to the action sheet do not call \<open>close\<close>: after the handler
  of its first option, and after its cancel handler, the overlay is still stored and the
  select is still expanded. And \<open>close\<close> resolves to what the overlay's \<open>dismiss\<close>
  resolves to, which is false for an overlay whose \<open>dismiss\<close> resolves to false.
\<close>

theorem overlay_lifecycle_counterexample:
  "handlers_of (snd (open_select None sheet_select)) ! 0 = ActionSheetOptionHandler 0
   \<and> overlay (invoke dismiss_true (ActionSheetOptionHandler 0) (Atom JUndefined)
                (fst (open_select None sheet_select)))
       = Some (snd (open_select None sheet_select))
   \<and> isExpanded (invoke dismiss_true (ActionSheetOptionHandler 0) (Atom JUndefined)
                   (fst (open_select None sheet_select)))
   \<and> filter is_dismiss (trace (invoke dismiss_true (ActionSheetOptionHandler 0) (Atom JUndefined)
                                 (fst (open_select None sheet_select)))) = []
   \<and> handlers_of (snd (open_select None sheet_select)) ! 3 = CancelHandler
   \<and> isExpanded (invoke dismiss_true CancelHandler (Atom JUndefined)
                   (fst (open_select None sheet_select)))
   \<and> overlay (fst (open_select None sheet_select)) \<noteq> None
   \<and> snd (close dismiss_false (fst (open_select None sheet_select))) = False"
  by (simp add: sheet_select_def fruit_defs open_select_def openActionSheet_def Let_def
        perform_def close_def dismiss_false_def)

text \<open>
  C4, amended. Each of \<open>openPopover\<close>, \<open>openActionSheet\<close> and \<open>openAlert\<close> creates an
  overlay, presents it, stores it as the current overlay and sets \<open>isExpanded\<close> to true.
  \<open>close\<close>, when an overlay is stored, clears the stored overlay, resets \<open>isExpanded\<close> to
  false, dismisses the overlay and resolves to what the overlay's \<open>dismiss\<close> resolves to;
  when no overlay is stored it changes no component state and resolves to false. The
  handler of a popover option sets the value to the value of its option and then calls
  \<open>close\<close>.
\<close>

theorem overlay_lifecycle:
  "opened s (openPopover ev s) \<and> opened s (openActionSheet s) \<and> opened s (openAlert s)
   \<and> (overlay s = Some ov \<longrightarrow>
        overlay (fst (close dismiss s)) = None
        \<and> \<not> isExpanded (fst (close dismiss s))
        \<and> new_effects s (fst (close dismiss s)) = [Dismiss ov]
        \<and> snd (close dismiss s) = dismiss ov)
   \<and> (overlay s = None \<longrightarrow> close dismiss s = (s, False))
   \<and> (overlay s = Some ov \<longrightarrow>
        sel_value (invoke dismiss (PopoverOptionHandler r) v s) = Atom (opt_value (heap s r))
        \<and> overlay (invoke dismiss (PopoverOptionHandler r) v s) = None
        \<and> \<not> isExpanded (invoke dismiss (PopoverOptionHandler r) v s)
        \<and> new_effects s (invoke dismiss (PopoverOptionHandler r) v s) = [Dismiss ov])"
  by (simp add: opened_openPopover opened_openActionSheet opened_openAlert close_some close_none
        new_effects_def perform_def)

theorem overlay_lifecycle_witness:
  "overlay (fst (openPopover (Some (UIEvent 0)) fruit_select))
     = Some (snd (openPopover (Some (UIEvent 0)) fruit_select))
   \<and> handlers_of (snd (openPopover (Some (UIEvent 0)) fruit_select)) ! 1 = PopoverOptionHandler 1
   \<and> sel_value (invoke dismiss_true (PopoverOptionHandler 1) (Atom JUndefined)
                  (fst (openPopover (Some (UIEvent 0)) fruit_select))) = Atom (JStr ''b'')
   \<and> overlay (invoke dismiss_true (PopoverOptionHandler 1) (Atom JUndefined)
                (fst (openPopover (Some (UIEvent 0)) fruit_select))) = None
   \<and> \<not> isExpanded (invoke dismiss_true (PopoverOptionHandler 1) (Atom JUndefined)
                     (fst (openPopover (Some (UIEvent 0)) fruit_select)))
   \<and> snd (close dismiss_true (fst (openPopover (Some (UIEvent 0)) fruit_select)))
   \<and> overlay fruit_select = None
   \<and> close dismiss_true fruit_select = (fruit_select, False)"
proof -
  have o: "overlay (fst (openPopover (Some (UIEvent 0)) fruit_select))
     = Some (snd (openPopover (Some (UIEvent 0)) fruit_select))"
    by (simp add: openPopover_def Let_def perform_def)
  have n: "overlay fruit_select = None"
    by (simp add: fruit_select_def)
  have h: "handlers_of (snd (openPopover (Some (UIEvent 0)) fruit_select)) ! 1
             = PopoverOptionHandler 1"
    by (simp add: openPopover_def Let_def fruit_select_def)
  have v: "opt_value (heap (fst (openPopover (Some (UIEvent 0)) fruit_select)) 1) = JStr ''b''"
    by (simp add: openPopover_def Let_def perform_def fruit_defs)
  from overlay_lifecycle[of "fst (openPopover (Some (UIEvent 0)) fruit_select)" _
         "snd (openPopover (Some (UIEvent 0)) fruit_select)" dismiss_true 1 "Atom JUndefined"]
       overlay_lifecycle[of fruit_select _ _ dismiss_true]
       o n h v
  show ?thesis
    by (simp add: dismiss_true_def del: invoke.simps)
qed

end
